theory Spec2Isabelle
  imports Main "HOL-Library.FSet"
begin

section \<open>Candidate set algebra: \<^verbatim>\<open>placement/objects/rp_candidates.py\<close>\<close>

text \<open>
  \<^verbatim>\<open>RPCandidate = collections.namedtuple("RPCandidates", "uuid root_uuid rc_name")\<close>:
  an immutable triple of the provider's UUID, the UUID of the root of its tree and the
  name of a resource class. UUIDs and names are Python strings.
\<close>

record RPCandidate =
  uuid :: string
  root_uuid :: string
  rc_name :: string

text \<open>
  An \<^verbatim>\<open>RPCandidateList\<close> object has one attribute, \<^verbatim>\<open>rp_candidates\<close>, which refers to
  a Python \<^verbatim>\<open>set\<close> object. Some methods rebind the attribute to a new set
  (\<^verbatim>\<open>self.rp_candidates = set(...)\<close>, \<^verbatim>\<open>self.rp_candidates = other.rp_candidates\<close>), others
  change the set object in place (\<^verbatim>\<open>self.rp_candidates |= ...\<close>), so two lists may share one
  set object. The heap keeps both levels apart: which set object each list refers to,
  and what each set object holds. Python sets are finite, hence \<open>fset\<close>.
\<close>

type_synonym oid = nat
type_synonym addr = nat

record heap =
  rp_candidates :: "oid \<Rightarrow> addr"
  set_at :: "addr \<Rightarrow> RPCandidate fset"
  next_addr :: addr

text \<open>Reading \<^verbatim>\<open>self.rp_candidates\<close>: the value of the set object the attribute refers to.\<close>

definition candidates :: "heap \<Rightarrow> oid \<Rightarrow> RPCandidate fset" where
  "candidates h self = set_at h (rp_candidates h self)"

text \<open>\<^verbatim>\<open>self.rp_candidates = set(...)\<close>: a new set object, and the attribute rebound to it.\<close>

definition assign_new_set :: "oid \<Rightarrow> RPCandidate fset \<Rightarrow> heap \<Rightarrow> heap" where
  "assign_new_set self s h =
     h\<lparr>rp_candidates := (rp_candidates h)(self := next_addr h),
       set_at := (set_at h)(next_addr h := s),
       next_addr := Suc (next_addr h)\<rparr>"

text \<open>
  \<^verbatim>\<open>self.rp_candidates |= s\<close>: \<^verbatim>\<open>set.__ior__\<close> updates the set object in place and returns
  it, so the attribute keeps referring to the same object and every list sharing the
  object sees the union.
\<close>

definition ior_in_place :: "oid \<Rightarrow> RPCandidate fset \<Rightarrow> heap \<Rightarrow> heap" where
  "ior_in_place self s h =
     h\<lparr>set_at := (set_at h)(rp_candidates h self := set_at h (rp_candidates h self) |\<union>| s)\<rparr>"

text \<open>
  \<^verbatim>\<open>__init__(self, rp_candidates=None)\<close>: \<^verbatim>\<open>self.rp_candidates = rp_candidates or set()\<close>.
  A non-empty set passed in is shared, not copied; \<open>None\<close> and an empty set both give a
  new empty set.
\<close>

definition init :: "oid \<Rightarrow> addr option \<Rightarrow> heap \<Rightarrow> heap" where
  "init self arg h =
     (case arg of
        None \<Rightarrow> assign_new_set self {||} h
      | Some a \<Rightarrow>
          if set_at h a \<noteq> {||} then h\<lparr>rp_candidates := (rp_candidates h)(self := a)\<rparr>
          else assign_new_set self {||} h)"

text \<open>\<^verbatim>\<open>__len__\<close> and \<^verbatim>\<open>__bool__\<close> (\<^verbatim>\<open>bool(len(self))\<close>; \<^verbatim>\<open>__nonzero__\<close> is the same).\<close>

definition rp_len :: "heap \<Rightarrow> oid \<Rightarrow> nat" where
  "rp_len h self = fcard (candidates h self)"

definition rp_bool :: "heap \<Rightarrow> oid \<Rightarrow> bool" where
  "rp_bool h self = (rp_len h self \<noteq> 0)"

text \<open>The properties \<^verbatim>\<open>rps\<close>, \<^verbatim>\<open>trees\<close>, \<^verbatim>\<open>all_rps\<close> and \<^verbatim>\<open>rps_info\<close>.\<close>

definition rps :: "heap \<Rightarrow> oid \<Rightarrow> string fset" where
  "rps h self = uuid |`| candidates h self"

definition trees :: "heap \<Rightarrow> oid \<Rightarrow> string fset" where
  "trees h self = root_uuid |`| candidates h self"

definition all_rps :: "heap \<Rightarrow> oid \<Rightarrow> string fset" where
  "all_rps h self = rps h self |\<union>| trees h self"

definition rps_info :: "heap \<Rightarrow> oid \<Rightarrow> RPCandidate fset" where
  "rps_info h self = candidates h self"

text \<open>
  \<^verbatim>\<open>add_rps(self, rps, rc_name)\<close>: the argument is an iterable of (provider UUID, root UUID)
  tuples; the set built from it is united into the list's set object in place.
\<close>

definition add_rps :: "oid \<Rightarrow> (string \<times> string) list \<Rightarrow> string \<Rightarrow> heap \<Rightarrow> heap" where
  "add_rps self pairs rc h =
     ior_in_place self
       (fset_of_list (map (\<lambda>rp. \<lparr>uuid = fst rp, root_uuid = snd rp, rc_name = rc\<rparr>) pairs)) h"

text \<open>The four filters: each builds a new set from the kept candidates and rebinds.\<close>

definition filter_by_tree :: "oid \<Rightarrow> string fset \<Rightarrow> heap \<Rightarrow> heap" where
  "filter_by_tree self tree_root_ids h =
     assign_new_set self
       (ffilter (\<lambda>p. root_uuid p |\<in>| tree_root_ids) (candidates h self)) h"

definition filter_by_rp :: "oid \<Rightarrow> (string \<times> string) fset \<Rightarrow> heap \<Rightarrow> heap" where
  "filter_by_rp self rptuples h =
     assign_new_set self
       (ffilter (\<lambda>p. (uuid p, root_uuid p) |\<in>| rptuples) (candidates h self)) h"

definition filter_by_rp_or_tree :: "oid \<Rightarrow> string fset \<Rightarrow> heap \<Rightarrow> heap" where
  "filter_by_rp_or_tree self rp_uuids h =
     assign_new_set self
       (ffilter (\<lambda>p. {|uuid p, root_uuid p|} |\<inter>| rp_uuids \<noteq> {||}) (candidates h self)) h"

definition filter_by_rp_nor_tree :: "oid \<Rightarrow> string fset \<Rightarrow> heap \<Rightarrow> heap" where
  "filter_by_rp_nor_tree self rp_uuids h =
     assign_new_set self
       (ffilter (\<lambda>p. \<not> ({|uuid p, root_uuid p|} |\<inter>| rp_uuids \<noteq> {||})) (candidates h self)) h"

text \<open>
  \<^verbatim>\<open>merge_common_trees(self, other)\<close>. The first branch shares \<open>other\<close>'s set object; the
  last reads both tree sets, then unites in place, then filters.
\<close>

definition merge_common_trees :: "oid \<Rightarrow> oid \<Rightarrow> heap \<Rightarrow> heap" where
  "merge_common_trees self other h =
     (if \<not> rp_bool h self then
        h\<lparr>rp_candidates := (rp_candidates h)(self := rp_candidates h other)\<rparr>
      else if \<not> rp_bool h other then h
      else
        let trees_in_both = trees h self |\<inter>| trees h other;
            h1 = ior_in_place self (candidates h other) h
        in filter_by_tree self trees_in_both h1)"

text \<open>A sequence of mutations, each on the list it names.\<close>

datatype mutation =
    AddRps oid "(string \<times> string) list" string
  | FilterByTree oid "string fset"
  | FilterByRp oid "(string \<times> string) fset"
  | FilterByRpOrTree oid "string fset"
  | FilterByRpNorTree oid "string fset"
  | MergeCommonTrees oid oid

fun mutate :: "mutation \<Rightarrow> heap \<Rightarrow> heap" where
  "mutate (AddRps self pairs rc) h = add_rps self pairs rc h"
| "mutate (FilterByTree self ids) h = filter_by_tree self ids h"
| "mutate (FilterByRp self tuples) h = filter_by_rp self tuples h"
| "mutate (FilterByRpOrTree self ids) h = filter_by_rp_or_tree self ids h"
| "mutate (FilterByRpNorTree self ids) h = filter_by_rp_nor_tree self ids h"
| "mutate (MergeCommonTrees self other) h = merge_common_trees self other h"

fun mutate_all :: "mutation list \<Rightarrow> heap \<Rightarrow> heap" where
  "mutate_all [] h = h"
| "mutate_all (m # ms) h = mutate_all ms (mutate m h)"

text \<open>The scenario of two candidate lists (objects 2 and 3) over providers \<open>p1\<close>, \<open>p2\<close>, \<open>p3\<close>.\<close>

definition cand :: "string \<Rightarrow> string \<Rightarrow> string \<Rightarrow> RPCandidate" where
  "cand u r c = \<lparr>uuid = u, root_uuid = r, rc_name = c\<rparr>"

definition scenario_heap :: "string \<Rightarrow> string \<Rightarrow> string \<Rightarrow> heap" where
  "scenario_heap p1 p2 p3 =
     \<lparr>rp_candidates = (\<lambda>_. 0)(2 := 2, 3 := 3),
      set_at = (\<lambda>_. {||})
        (2 := {|cand p1 p1 ''DISK'', cand p2 p1 ''VCPU'', cand p3 p3 ''DISK''|},
         3 := {|cand p1 p1 ''DISK'', cand p3 p3 ''VCPU''|}),
      next_addr = 4\<rparr>"

text \<open>Two lists (objects 2 and 3) whose trees are disjoint, and an empty one (object 0).\<close>

definition disjoint_heap :: heap where
  "disjoint_heap =
     \<lparr>rp_candidates = (\<lambda>_. 0)(2 := 2, 3 := 3),
      set_at = (\<lambda>_. {||})
        (2 := {|cand ''a1'' ''a1'' ''DISK'', cand ''a2'' ''a1'' ''VCPU''|},
         3 := {|cand ''b1'' ''b1'' ''DISK''|}),
      next_addr = 4\<rparr>"


section \<open>Consumers in the graph store: \<^verbatim>\<open>placement/objects/consumer.py\<close>\<close>

subsection \<open>Python values, exceptions and \<^verbatim>\<open>%\<close> formatting\<close>

datatype pyval = PyStr string | PyInt int | PyNone

text \<open>
  The exceptions the modelled methods can end in. \<open>ClientError\<close> stands for an error
  raised by the graph store while it runs a statement. An exception leaves the graph as
  it was before the call (nothing was written, or the writer's transaction is rolled
  back), so an error result carries no graph.
\<close>

datatype error = ConcurrentUpdateDetected | TypeError | ClientError

text \<open>
  \<^verbatim>\<open>template % (a, b, ...)\<close>: every \<^verbatim>\<open>%s\<close> of the template takes one item of the tuple, and
  Python raises \<open>TypeError\<close> when the tuple has too few items ("not enough arguments
  for format string") or too many ("not all arguments converted during string
  formatting"). The model keeps the items as the statement's parameters instead of
  building the text; this presumes that no interpolated string holds a quote character.
\<close>

fun conversions :: "string \<Rightarrow> nat" where
  "conversions (c # d # cs) =
     (if c = CHR ''%'' \<and> d = CHR ''s'' then Suc (conversions cs) else conversions (d # cs))"
| "conversions [c] = 0"
| "conversions [] = 0"

definition percent_format :: "string \<Rightarrow> pyval list \<Rightarrow> error + pyval list" where
  "percent_format template args =
     (if length args = conversions template then Inr args else Inl TypeError)"

definition py_of_int :: "int option \<Rightarrow> pyval" where
  "py_of_int v = (case v of None \<Rightarrow> PyNone | Some n \<Rightarrow> PyInt n)"

definition py_of_str :: "string option \<Rightarrow> pyval" where
  "py_of_str v = (case v of None \<Rightarrow> PyNone | Some s \<Rightarrow> PyStr s)"

subsection \<open>The property graph\<close>

text \<open>
  The graph store holds labelled nodes with properties and typed, directed relationships
  between nodes. Relationships are a list: the store allows several relationships of one
  type between the same two nodes.
\<close>

datatype label = CONSUMER | USER | PROJECT | OTHER_LABEL string

datatype reltype = OWNS | USES | BELONGS_TO | OTHER_REL string

record node =
  nid :: nat
  nlabel :: label
  nprops :: "string \<rightharpoonup> pyval"

record rel =
  rtype :: reltype
  rsrc :: nat
  rdst :: nat

record graph =
  nodes :: "node list"
  rels :: "rel list"

definition has_props :: "node \<Rightarrow> (string \<times> pyval) list \<Rightarrow> bool" where
  "has_props n ps = list_all (\<lambda>(k, v). nprops n k = Some v) ps"

definition fresh_id :: "graph \<Rightarrow> nat" where
  "fresh_id g = Suc (fold max (map nid (nodes g)) 0)"

text \<open>
  \<^verbatim>\<open>MERGE (n:LABEL {props})\<close>: nothing is written when some node has the label and all the
  properties; otherwise a node with exactly them is created.
\<close>

definition merge_node :: "label \<Rightarrow> (string \<times> pyval) list \<Rightarrow> graph \<Rightarrow> graph" where
  "merge_node l ps g =
     (if list_ex (\<lambda>n. nlabel n = l \<and> has_props n ps) (nodes g) then g
      else g\<lparr>nodes := nodes g @ [\<lparr>nid = fresh_id g, nlabel = l, nprops = map_of ps\<rparr>]\<rparr>)"

text \<open>The node pattern \<^verbatim>\<open>(cs:CONSUMER {uuid: '...', generation: ...})\<close>.\<close>

definition match_consumer :: "string \<Rightarrow> int \<Rightarrow> node \<Rightarrow> bool" where
  "match_consumer u gen n =
     (nlabel n = CONSUMER \<and> has_props n [(''uuid'', PyStr u), (''generation'', PyInt gen)])"

text \<open>The node pattern \<^verbatim>\<open>(u:USER {uuid: '...'})\<close>.\<close>

definition match_user :: "string \<Rightarrow> node \<Rightarrow> bool" where
  "match_user u n = (nlabel n = USER \<and> has_props n [(''uuid'', PyStr u)])"

text \<open>
  What the store holds as the generation of the consumer nodes with a UUID, one entry
  per node, in the order of the nodes.
\<close>

definition stored_generations :: "graph \<Rightarrow> string \<Rightarrow> pyval option list" where
  "stored_generations g u =
     map (\<lambda>n. nprops n ''generation'')
       (filter (\<lambda>n. nlabel n = CONSUMER \<and> nprops n ''uuid'' = Some (PyStr u)) (nodes g))"

text \<open>The number of \<^verbatim>\<open>(cs)-[:USES]->()\<close> relationships of a node: its live allocations.\<close>

definition uses_count :: "graph \<Rightarrow> node \<Rightarrow> nat" where
  "uses_count g n = length (filter (\<lambda>r. rtype r = USES \<and> rsrc r = nid n) (rels g))"

subsection \<open>The \<^verbatim>\<open>Consumer\<close> object\<close>

text \<open>
  The attributes of a \<^verbatim>\<open>Consumer\<close>; each but the UUID may be \<open>None\<close>. The \<^verbatim>\<open>project\<close> and
  \<^verbatim>\<open>user\<close> attributes refer to objects of which only the \<^verbatim>\<open>uuid\<close> attribute is read: the
  outer option is the object, the inner one its \<^verbatim>\<open>uuid\<close>. The record's first field is the
  attribute \<^verbatim>\<open>uuid\<close> (named apart from the candidate's).
\<close>

record Consumer =
  consumer_uuid :: string
  project :: "string option option"
  user :: "string option option"
  generation :: "int option"
  updated_at :: "int option"
  created_at :: "int option"

subsection \<open>\<^verbatim>\<open>delete_consumers_if_no_allocations\<close>\<close>

text \<open>
  The body is a bare \<^verbatim>\<open>return\<close> followed by a statement that is never reached
  (\<^verbatim>\<open>MATCH (cs:CONSUMER) WHERE NOT (cs)-[:USES]->() WITH cs DETACH DELETE cs\<close>): the call
  returns \<open>None\<close> and the graph is what it was.
\<close>

definition delete_consumers_if_no_allocations :: "string list \<Rightarrow> graph \<Rightarrow> graph" where
  "delete_consumers_if_no_allocations consumer_uuids g = g"

subsection \<open>\<^verbatim>\<open>Consumer.create\<close>\<close>

definition create_template :: string where
  "create_template =
     ''MERGE (cs:CONSUMER {uuid: '%s', generation: %s, created_at: %s, updated_at: %s}) RETURN cs''"

text \<open>
  A timestamp parameter is either a number or the text \<^verbatim>\<open>timestamp()\<close>, which the store
  evaluates to its clock, \<open>now\<close>.
\<close>

definition eval_time :: "int \<Rightarrow> pyval \<Rightarrow> int option" where
  "eval_time now v =
     (case v of
        PyInt t \<Rightarrow> Some t
      | PyStr s \<Rightarrow> if s = ''timestamp()'' then Some now else None
      | PyNone \<Rightarrow> None)"

fun run_create :: "pyval list \<Rightarrow> int \<Rightarrow> graph \<Rightarrow> error + graph" where
  "run_create [PyStr u, PyInt gen, c, t] now g =
     (case (eval_time now c, eval_time now t) of
        (Some cv, Some tv) \<Rightarrow>
          Inr (merge_node CONSUMER
                 [(''uuid'', PyStr u), (''generation'', PyInt gen),
                  (''created_at'', PyInt cv), (''updated_at'', PyInt tv)] g)
      | _ \<Rightarrow> Inl ClientError)"
| "run_create _ now g = Inl ClientError"

text \<open>\<^verbatim>\<open>x if x else "timestamp()"\<close>: \<open>None\<close> and \<open>0\<close> are false.\<close>

definition time_or_now :: "int option \<Rightarrow> pyval" where
  "time_or_now v =
     (case v of None \<Rightarrow> PyStr ''timestamp()''
      | Some t \<Rightarrow> if t \<noteq> 0 then PyInt t else PyStr ''timestamp()'')"

definition create_in_db :: "Consumer \<Rightarrow> int \<Rightarrow> int \<Rightarrow> graph \<Rightarrow> error + graph" where
  "create_in_db self gen now g =
     (let creat = time_or_now (created_at self);
          updt = time_or_now (updated_at self)
      in case percent_format create_template [PyStr (consumer_uuid self), PyInt gen, creat, updt] of
           Inl e \<Rightarrow> Inl e
         | Inr query \<Rightarrow> run_create query now g)"

text \<open>\<^verbatim>\<open>gen = self.generation or 0\<close>, the insert, then \<^verbatim>\<open>self.generation = gen\<close>.\<close>

definition create :: "Consumer \<Rightarrow> int \<Rightarrow> graph \<Rightarrow> error + graph \<times> Consumer" where
  "create self now g =
     (let gen = (case generation self of None \<Rightarrow> 0 | Some n \<Rightarrow> if n \<noteq> 0 then n else 0)
      in case create_in_db self gen now g of
           Inl e \<Rightarrow> Inl e
         | Inr g' \<Rightarrow> Inr (g', self\<lparr>generation := Some gen\<rparr>))"

subsection \<open>\<^verbatim>\<open>Consumer.update\<close>\<close>

definition swap_owner_template :: string where
  "swap_owner_template =
     ''MATCH p=(u:USER)-[:OWNS]-(cs:CONSUMER {uuid: '%s', generation: %s}) WITH cs, relationships(p)[0] AS owns DELETE owns WITH cs OPTIONAL MATCH (u:USER {uuid: '%s'}) WITH u, cs CREATE (u)-[:OWNS]->(cs)''"

definition drop_owner_template :: string where
  "drop_owner_template =
     ''MATCH p=(u:USER)-[:OWNS]-(cs:CONSUMER {uuid: '%s', generation: %s}) WITH cs, relationships(p)[0] AS owns DELETE owns''"

text \<open>
  The rows of \<^verbatim>\<open>MATCH p=(u:USER)-[:OWNS]-(cs:CONSUMER {...})\<close>: one for each OWNS
  relationship, in either direction, between a user node and a matching consumer node.
\<close>

definition owns_paths :: "string \<Rightarrow> int \<Rightarrow> graph \<Rightarrow> (rel \<times> node) list" where
  "owns_paths u gen g =
     [(r, cs). r \<leftarrow> rels g, rtype r = OWNS,
               cs \<leftarrow> nodes g, match_consumer u gen cs,
               usr \<leftarrow> nodes g, nlabel usr = USER,
               (rsrc r = nid usr \<and> rdst r = nid cs) \<or> (rsrc r = nid cs \<and> rdst r = nid usr)]"

text \<open>
  The statement with a new user: the matched relationships are deleted, and for each row
  a relationship from each user node with the new UUID is created. With no such node
  \<^verbatim>\<open>OPTIONAL MATCH\<close> binds \<open>u\<close> to null, and \<^verbatim>\<open>CREATE\<close> from null is an error of the store.
\<close>

fun run_swap_owner :: "pyval list \<Rightarrow> graph \<Rightarrow> error + graph" where
  "run_swap_owner [PyStr u, PyInt gen, PyStr new_user] g =
     (let rows = owns_paths u gen g;
          users = filter (match_user new_user) (nodes g);
          kept = filter (\<lambda>r. r \<notin> set (map fst rows)) (rels g);
          created = [\<lparr>rtype = OWNS, rsrc = nid usr, rdst = nid cs\<rparr>. (r, cs) \<leftarrow> rows, usr \<leftarrow> users]
      in if rows \<noteq> [] \<and> users = [] then Inl ClientError
         else Inr (g\<lparr>rels := kept @ created\<rparr>))"
| "run_swap_owner _ g = Inl ClientError"

fun run_drop_owner :: "pyval list \<Rightarrow> graph \<Rightarrow> error + graph" where
  "run_drop_owner [PyStr u, PyInt gen] g =
     (let rows = owns_paths u gen g
      in Inr (g\<lparr>rels := filter (\<lambda>r. r \<notin> set (map fst rows)) (rels g)\<rparr>))"
| "run_drop_owner _ g = Inl ClientError"

text \<open>
  \<^verbatim>\<open>_update_in_db\<close>: \<^verbatim>\<open>user_uuid = self.user.uuid if self.user else None\<close>, and
  \<^verbatim>\<open>if user_uuid:\<close> is false for \<open>None\<close> and for the empty string. Both branches format
  their template with the same three items.
\<close>

definition update_in_db :: "Consumer \<Rightarrow> graph \<Rightarrow> error + graph" where
  "update_in_db self g =
     (let user_uuid = (case user self of None \<Rightarrow> None | Some usr \<Rightarrow> usr);
          items = [PyStr (consumer_uuid self), py_of_int (generation self), py_of_str user_uuid]
      in if user_uuid \<noteq> None \<and> user_uuid \<noteq> Some [] then
           (case percent_format swap_owner_template items of
              Inl e \<Rightarrow> Inl e
            | Inr query \<Rightarrow> run_swap_owner query g)
         else
           (case percent_format drop_owner_template items of
              Inl e \<Rightarrow> Inl e
            | Inr query \<Rightarrow> run_drop_owner query g))"

definition update :: "Consumer \<Rightarrow> graph \<Rightarrow> error + graph \<times> Consumer" where
  "update self g =
     (case update_in_db self g of Inl e \<Rightarrow> Inl e | Inr g' \<Rightarrow> Inr (g', self))"

subsection \<open>\<^verbatim>\<open>Consumer.increment_generation\<close>\<close>

definition increment_template :: string where
  "increment_template =
     ''MATCH (cs:CONSUMER {uuid: '%s', generation: %s}) WITH cs SET cs.generation = %s RETURN cs''"

text \<open>
  The statement sets the generation of every matching node and returns the matching
  nodes as its rows.
\<close>

fun run_increment :: "pyval list \<Rightarrow> graph \<Rightarrow> error + graph \<times> node list" where
  "run_increment [PyStr u, PyInt gen, PyInt new] g =
     Inr (g\<lparr>nodes :=
              map (\<lambda>n. if match_consumer u gen n
                       then n\<lparr>nprops := (nprops n)(''generation'' \<mapsto> PyInt new)\<rparr> else n)
                (nodes g)\<rparr>,
          filter (match_consumer u gen) (nodes g))"
| "run_increment _ g = Inl ClientError"

text \<open>
  \<^verbatim>\<open>consumer_gen + 1\<close> is a \<open>TypeError\<close> when the generation is \<open>None\<close>. The method has
  no \<^verbatim>\<open>return\<close> statement, so a call that does not raise returns \<open>None\<close>: the first
  component of the result is the value returned, the second the store, the third the
  object, whose last assignment is \<^verbatim>\<open>self.generation = new_generation\<close>.
\<close>

definition increment_generation ::
  "Consumer \<Rightarrow> graph \<Rightarrow> error + pyval \<times> graph \<times> Consumer" where
  "increment_generation self g =
     (case generation self of
        None \<Rightarrow> Inl TypeError
      | Some consumer_gen \<Rightarrow>
          (let new_generation = consumer_gen + 1
           in (case percent_format increment_template
                     [PyStr (consumer_uuid self), PyInt consumer_gen, PyInt new_generation] of
                 Inl e \<Rightarrow> Inl e
               | Inr query \<Rightarrow>
                   (case run_increment query g of
                      Inl e \<Rightarrow> Inl e
                    | Inr (g', result) \<Rightarrow>
                        (if result = [] then Inl ConcurrentUpdateDetected
                         else Inr (PyNone, g', self\<lparr>generation := Some new_generation\<rparr>))))))"

text \<open>
  Example stores and objects: an empty store; a store holding one consumer \<open>c1\<close> at a
  given generation; and a store in which user \<open>u1\<close> owns consumer \<open>c1\<close>, which has no
  allocation, beside a second user \<open>u2\<close>.
\<close>

definition empty_graph :: graph where
  "empty_graph = \<lparr>nodes = [], rels = []\<rparr>"

definition stored_graph :: "int \<Rightarrow> graph" where
  "stored_graph k =
     \<lparr>nodes = [\<lparr>nid = 1, nlabel = CONSUMER,
                nprops = map_of [(''uuid'', PyStr ''c1''), (''generation'', PyInt k),
                                 (''created_at'', PyInt 100), (''updated_at'', PyInt 100)]\<rparr>],
      rels = []\<rparr>"

definition owned_graph :: graph where
  "owned_graph =
     \<lparr>nodes = [\<lparr>nid = 1, nlabel = USER, nprops = map_of [(''uuid'', PyStr ''u1'')]\<rparr>,
               \<lparr>nid = 2, nlabel = CONSUMER,
                nprops = map_of [(''uuid'', PyStr ''c1''), (''generation'', PyInt 0)]\<rparr>,
               \<lparr>nid = 3, nlabel = USER, nprops = map_of [(''uuid'', PyStr ''u2'')]\<rparr>],
      rels = [\<lparr>rtype = OWNS, rsrc = 1, rdst = 2\<rparr>]\<rparr>"

definition consumer_c1 :: "string option option \<Rightarrow> int option \<Rightarrow> Consumer" where
  "consumer_c1 usr gen =
     \<lparr>consumer_uuid = ''c1'', project = None, user = usr, generation = gen,
      updated_at = None, created_at = None\<rparr>"


section \<open>Properties of the candidate set algebra\<close>

lemma candidates_assign_new_set: "candidates (assign_new_set self s h) self = s"
  by (simp add: candidates_def assign_new_set_def)

lemma candidates_ior_in_place:
  "candidates (ior_in_place self s h) self = candidates h self |\<union>| s"
  by (simp add: candidates_def ior_in_place_def)

lemma rp_bool_iff: "rp_bool h self \<longleftrightarrow> candidates h self \<noteq> {||}"
  by (simp add: rp_bool_def rp_len_def)

lemma candidates_filter_by_tree:
  "candidates (filter_by_tree self ids h) self =
     ffilter (\<lambda>p. root_uuid p |\<in>| ids) (candidates h self)"
  by (simp add: filter_by_tree_def candidates_assign_new_set)

lemma candidates_filter_by_rp:
  "candidates (filter_by_rp self tuples h) self =
     ffilter (\<lambda>p. (uuid p, root_uuid p) |\<in>| tuples) (candidates h self)"
  by (simp add: filter_by_rp_def candidates_assign_new_set)

lemma candidates_filter_by_rp_or_tree:
  "candidates (filter_by_rp_or_tree self ids h) self =
     ffilter (\<lambda>p. uuid p |\<in>| ids \<or> root_uuid p |\<in>| ids) (candidates h self)"
  by (simp add: filter_by_rp_or_tree_def candidates_assign_new_set) 

lemma candidates_filter_by_rp_nor_tree:
  "candidates (filter_by_rp_nor_tree self ids h) self =
     ffilter (\<lambda>p. \<not> (uuid p |\<in>| ids \<or> root_uuid p |\<in>| ids)) (candidates h self)"
  by (simp add: filter_by_rp_nor_tree_def candidates_assign_new_set)

text \<open>
  Claim C1. When both lists are non-empty, \<open>A.merge_common_trees(B)\<close> leaves \<open>A\<close> with
  the union of the two candidate sets, restricted to the candidates whose root is a tree
  of both lists; the trees are those the lists had before the union. This holds whether
  or not the two lists share a set object.
\<close>

theorem merge_common_trees_union_filtered:
  assumes "rp_bool h A" and "rp_bool h B"
  shows "candidates (merge_common_trees A B h) A =
     ffilter (\<lambda>p. root_uuid p |\<in>| trees h A |\<inter>| trees h B)
       (candidates h A |\<union>| candidates h B)"
  using assms
  by (simp add: merge_common_trees_def Let_def candidates_filter_by_tree candidates_ior_in_place)

theorem merge_common_trees_union_filtered_witness:
  "rp_bool (scenario_heap ''p1'' ''p2'' ''p3'') 2 \<and> rp_bool (scenario_heap ''p1'' ''p2'' ''p3'') 3 \<and>
   candidates (merge_common_trees 2 3 (scenario_heap ''p1'' ''p2'' ''p3'')) 2 =
     {|cand ''p1'' ''p1'' ''DISK'', cand ''p2'' ''p1'' ''VCPU'', cand ''p3'' ''p3'' ''DISK'',
       cand ''p3'' ''p3'' ''VCPU''|}"
proof -
  let ?h = "scenario_heap ''p1'' ''p2'' ''p3''"
  have a: "rp_bool ?h 2" by code_simp
  have b: "rp_bool ?h 3" by code_simp
  have "ffilter (\<lambda>p. root_uuid p |\<in>| trees ?h 2 |\<inter>| trees ?h 3)
          (candidates ?h 2 |\<union>| candidates ?h 3) =
        {|cand ''p1'' ''p1'' ''DISK'', cand ''p2'' ''p1'' ''VCPU'', cand ''p3'' ''p3'' ''DISK'',
          cand ''p3'' ''p3'' ''VCPU''|}"
    by code_simp
  with merge_common_trees_union_filtered [OF a b] a b show ?thesis by simp
qed

text \<open>
  Claim C3. Merging an empty \<open>B\<close> into \<open>A\<close> leaves \<open>A\<close>'s candidate set as it was, and
  merging \<open>B\<close> into an empty \<open>A\<close> makes \<open>A\<close>'s candidate set equal to \<open>B\<close>'s.
\<close>

theorem merge_common_trees_empty_operand:
  "(candidates h B = {||} \<longrightarrow>
      candidates (merge_common_trees A B h) A = candidates h A) \<and>
   (candidates h A = {||} \<longrightarrow>
      candidates (merge_common_trees A B h) A = candidates h B)"
  by (auto simp add: merge_common_trees_def rp_bool_iff candidates_def)

theorem merge_common_trees_empty_operand_witness:
  "candidates disjoint_heap 0 = {||} \<and>
   candidates (merge_common_trees 2 0 disjoint_heap) 2 = candidates disjoint_heap 2 \<and>
   candidates (merge_common_trees 0 2 disjoint_heap) 0 = candidates disjoint_heap 2"
proof -
  have e: "candidates disjoint_heap 0 = {||}"
    by (simp add: candidates_def disjoint_heap_def)
  from merge_common_trees_empty_operand [of disjoint_heap 0 2]
       merge_common_trees_empty_operand [of disjoint_heap 2 0] e
  show ?thesis by simp
qed

text \<open>
  Claim C5. For any set \<open>S\<close> of UUIDs, what \<open>filter_by_rp_or_tree(S)\<close> keeps and what
  \<open>filter_by_rp_nor_tree(S)\<close> keeps of the same list are disjoint, and together they are the
  original candidate set.
\<close>

theorem filters_partition:
  "candidates (filter_by_rp_or_tree A S h) A |\<inter>| candidates (filter_by_rp_nor_tree A S h) A = {||} \<and>
   candidates (filter_by_rp_or_tree A S h) A |\<union>| candidates (filter_by_rp_nor_tree A S h) A
     = candidates h A"
  by (auto simp add: candidates_filter_by_rp_or_tree candidates_filter_by_rp_nor_tree)

text \<open>
  Claim C7. When both lists are non-empty and no tree is in both, the merge leaves \<open>A\<close>
  with no candidate.
\<close>

theorem merge_common_trees_disjoint:
  assumes "rp_bool h A" and "rp_bool h B" and "trees h A |\<inter>| trees h B = {||}"
  shows "candidates (merge_common_trees A B h) A = {||}"
  using assms
  by (simp add: merge_common_trees_def Let_def candidates_filter_by_tree)

theorem merge_common_trees_disjoint_witness:
  "rp_bool disjoint_heap 2 \<and> rp_bool disjoint_heap 3 \<and>
   trees disjoint_heap 2 |\<inter>| trees disjoint_heap 3 = {||} \<and>
   candidates (merge_common_trees 2 3 disjoint_heap) 2 = {||}"
proof -
  have a: "rp_bool disjoint_heap 2" by code_simp
  have b: "rp_bool disjoint_heap 3" by code_simp
  have c: "trees disjoint_heap 2 |\<inter>| trees disjoint_heap 3 = {||}" by code_simp
  from merge_common_trees_disjoint [OF a b c] a b c show ?thesis by simp
qed

text \<open>
  Claim C9. After any sequence of \<open>add_rps\<close>, filter and \<open>merge_common_trees\<close> calls, on
  any lists of the heap, every list has \<open>rps\<close> and \<open>trees\<close> within \<open>all_rps\<close>.
\<close>

theorem views_within_all_rps:
  "rps (mutate_all ms h) A |\<subseteq>| all_rps (mutate_all ms h) A \<and>
   trees (mutate_all ms h) A |\<subseteq>| all_rps (mutate_all ms h) A"
  by (simp add: all_rps_def)

text \<open>
  Claim C10. Each of the four filters leaves the list with a subset of the candidates it
  had, and filtering a second time with the same argument changes nothing more.
\<close>

theorem filters_only_remove:
  "candidates (filter_by_tree A T h) A |\<subseteq>| candidates h A \<and>
   candidates (filter_by_rp A R h) A |\<subseteq>| candidates h A \<and>
   candidates (filter_by_rp_or_tree A S h) A |\<subseteq>| candidates h A \<and>
   candidates (filter_by_rp_nor_tree A S h) A |\<subseteq>| candidates h A \<and>
   candidates (filter_by_tree A T (filter_by_tree A T h)) A = candidates (filter_by_tree A T h) A \<and>
   candidates (filter_by_rp A R (filter_by_rp A R h)) A = candidates (filter_by_rp A R h) A \<and>
   candidates (filter_by_rp_or_tree A S (filter_by_rp_or_tree A S h)) A
     = candidates (filter_by_rp_or_tree A S h) A \<and>
   candidates (filter_by_rp_nor_tree A S (filter_by_rp_nor_tree A S h)) A
     = candidates (filter_by_rp_nor_tree A S h) A"
  by (auto simp add: candidates_filter_by_tree candidates_filter_by_rp
        candidates_filter_by_rp_or_tree candidates_filter_by_rp_nor_tree)

text \<open>
  Claim C6, as stated, counts five elements in the union of the two candidate sets of the
  scenario. The candidate \<open>(p1, p1, DISK)\<close> is in both sets, and the union has four.
\<close>

theorem scenario_union_not_five:
  "\<not> (trees (scenario_heap ''p1'' ''p2'' ''p3'') 2 |\<inter>| trees (scenario_heap ''p1'' ''p2'' ''p3'') 3
         = {|''p1'', ''p3''|} \<and>
       candidates (merge_common_trees 2 3 (scenario_heap ''p1'' ''p2'' ''p3'')) 2 =
         ffilter (\<lambda>p. root_uuid p |\<in>| {|''p1'', ''p3''|})
           (candidates (scenario_heap ''p1'' ''p2'' ''p3'') 2 |\<union>|
            candidates (scenario_heap ''p1'' ''p2'' ''p3'') 3) \<and>
       fcard (candidates (scenario_heap ''p1'' ''p2'' ''p3'') 2 |\<union>|
              candidates (scenario_heap ''p1'' ''p2'' ''p3'') 3) = 5)"
proof -
  have "fcard (candidates (scenario_heap ''p1'' ''p2'' ''p3'') 2 |\<union>|
              candidates (scenario_heap ''p1'' ''p2'' ''p3'') 3) = 4"
    by code_simp
  then show ?thesis by simp
qed

lemma scenario_candidates:
  "candidates (scenario_heap p1 p2 p3) 2 =
     {|cand p1 p1 ''DISK'', cand p2 p1 ''VCPU'', cand p3 p3 ''DISK''|}"
  "candidates (scenario_heap p1 p2 p3) 3 = {|cand p1 p1 ''DISK'', cand p3 p3 ''VCPU''|}"
  by (simp_all add: candidates_def scenario_heap_def)

lemma scenario_trees:
  "trees (scenario_heap p1 p2 p3) 2 = {|p1, p3|}"
  "trees (scenario_heap p1 p2 p3) 3 = {|p1, p3|}"
  by (auto simp add: trees_def scenario_candidates cand_def)

text \<open>
  Claim C6, amended. Merging \<open>{(p1,p1,DISK), (p2,p1,VCPU), (p3,p3,DISK)}\<close> with
  \<open>{(p1,p1,DISK), (p3,p3,VCPU)}\<close>, for \<open>p1\<close> and \<open>p3\<close> distinct: the trees in both are
  \<open>{p1, p3}\<close>, and the result is the union of the two sets filtered to the roots \<open>p1\<close> and
  \<open>p3\<close>, which is the whole union, of four candidates.
\<close>

theorem scenario_merge:
  assumes "p1 \<noteq> p3"
  shows "trees (scenario_heap p1 p2 p3) 2 |\<inter>| trees (scenario_heap p1 p2 p3) 3 = {|p1, p3|} \<and>
     candidates (merge_common_trees 2 3 (scenario_heap p1 p2 p3)) 2 =
       ffilter (\<lambda>p. root_uuid p |\<in>| {|p1, p3|})
         (candidates (scenario_heap p1 p2 p3) 2 |\<union>| candidates (scenario_heap p1 p2 p3) 3) \<and>
     candidates (merge_common_trees 2 3 (scenario_heap p1 p2 p3)) 2 =
       {|cand p1 p1 ''DISK'', cand p2 p1 ''VCPU'', cand p3 p3 ''DISK'', cand p3 p3 ''VCPU''|} \<and>
     fcard (candidates (scenario_heap p1 p2 p3) 2 |\<union>| candidates (scenario_heap p1 p2 p3) 3) = 4"
proof -
  let ?h = "scenario_heap p1 p2 p3"
  have ne: "rp_bool ?h 2" "rp_bool ?h 3"
    by (simp_all add: rp_bool_iff scenario_candidates)
  have t: "trees ?h 2 |\<inter>| trees ?h 3 = {|p1, p3|}"
    by (simp add: scenario_trees)
  have m: "candidates (merge_common_trees 2 3 ?h) 2 =
       ffilter (\<lambda>p. root_uuid p |\<in>| {|p1, p3|}) (candidates ?h 2 |\<union>| candidates ?h 3)"
    using ne by (simp add: merge_common_trees_def Let_def filter_by_tree_def
        candidates_assign_new_set candidates_ior_in_place t)
  have u: "candidates ?h 2 |\<union>| candidates ?h 3 =
       {|cand p1 p1 ''DISK'', cand p2 p1 ''VCPU'', cand p3 p3 ''DISK'', cand p3 p3 ''VCPU''|}"
    by (auto simp add: scenario_candidates)
  have f: "ffilter (\<lambda>p. root_uuid p |\<in>| {|p1, p3|}) (candidates ?h 2 |\<union>| candidates ?h 3) =
       candidates ?h 2 |\<union>| candidates ?h 3"
    by (auto simp add: scenario_candidates cand_def)
  have c: "fcard (candidates ?h 2 |\<union>| candidates ?h 3) = 4"
    using assms unfolding u by (simp add: fcard_finsert_if cand_def)
  from t m u f c show ?thesis by simp
qed

theorem scenario_merge_witness:
  "''p1'' \<noteq> ''p3'' \<and>
   (trees (scenario_heap ''p1'' ''p2'' ''p3'') 2 |\<inter>| trees (scenario_heap ''p1'' ''p2'' ''p3'') 3
      = {|''p1'', ''p3''|} \<and>
    candidates (merge_common_trees 2 3 (scenario_heap ''p1'' ''p2'' ''p3'')) 2 =
       ffilter (\<lambda>p. root_uuid p |\<in>| {|''p1'', ''p3''|})
         (candidates (scenario_heap ''p1'' ''p2'' ''p3'') 2 |\<union>|
          candidates (scenario_heap ''p1'' ''p2'' ''p3'') 3) \<and>
    candidates (merge_common_trees 2 3 (scenario_heap ''p1'' ''p2'' ''p3'')) 2 =
       {|cand ''p1'' ''p1'' ''DISK'', cand ''p2'' ''p1'' ''VCPU'', cand ''p3'' ''p3'' ''DISK'',
         cand ''p3'' ''p3'' ''VCPU''|} \<and>
    fcard (candidates (scenario_heap ''p1'' ''p2'' ''p3'') 2 |\<union>|
           candidates (scenario_heap ''p1'' ''p2'' ''p3'') 3) = 4)"
proof -
  have d: "''p1'' \<noteq> ''p3''" by simp
  show ?thesis by (rule conjI [OF d scenario_merge [OF d]])
qed


section \<open>Properties of the consumer operations\<close>

lemma conversions_templates:
  "conversions create_template = 4"
  "conversions swap_owner_template = 3"
  "conversions drop_owner_template = 2"
  "conversions increment_template = 3"
  by (simp_all add: create_template_def swap_owner_template_def drop_owner_template_def
        increment_template_def)

lemma match_consumer_iff:
  "match_consumer u k n \<longleftrightarrow>
     nlabel n = CONSUMER \<and> nprops n ''uuid'' = Some (PyStr u) \<and>
     nprops n ''generation'' = Some (PyInt k)"
  by (simp add: match_consumer_def has_props_def)

lemma stored_generations_mem:
  "Some (PyInt k) \<in> set (stored_generations g u) \<longleftrightarrow> (\<exists>n \<in> set (nodes g). match_consumer u k n)"
  by (force simp add: stored_generations_def match_consumer_iff image_iff)




lemma stored_generations_bumped:
  "stored_generations
     (g\<lparr>nodes := map (\<lambda>n. if match_consumer u k n
                           then n\<lparr>nprops := (nprops n)(''generation'' \<mapsto> PyInt new)\<rparr> else n)
                    (nodes g)\<rparr>) u' =
   (if u' = u
    then map (\<lambda>v. if v = Some (PyInt k) then Some (PyInt new) else v) (stored_generations g u)
    else stored_generations g u')"
proof -
  have "map (\<lambda>n. nprops n ''generation'')
          (filter (\<lambda>n. nlabel n = CONSUMER \<and> nprops n ''uuid'' = Some (PyStr u'))
             (map (\<lambda>n. if match_consumer u k n
                        then n\<lparr>nprops := (nprops n)(''generation'' \<mapsto> PyInt new)\<rparr> else n) ns)) =
        (if u' = u
         then map (\<lambda>v. if v = Some (PyInt k) then Some (PyInt new) else v)
                (map (\<lambda>n. nprops n ''generation'')
                   (filter (\<lambda>n. nlabel n = CONSUMER \<and> nprops n ''uuid'' = Some (PyStr u)) ns))
         else map (\<lambda>n. nprops n ''generation'')
                (filter (\<lambda>n. nlabel n = CONSUMER \<and> nprops n ''uuid'' = Some (PyStr u')) ns))"
    for ns
    by (induction ns) (auto simp add: match_consumer_iff)
  then show ?thesis by (simp add: stored_generations_def)
qed

lemma increment_known:
  assumes "generation c = Some k"
  shows "increment_generation c g =
     (if Some (PyInt k) \<in> set (stored_generations g (consumer_uuid c))
      then Inr (PyNone,
                g\<lparr>nodes := map (\<lambda>n. if match_consumer (consumer_uuid c) k n
                           then n\<lparr>nprops := (nprops n)(''generation'' \<mapsto> PyInt (k + 1))\<rparr> else n)
                    (nodes g)\<rparr>, c\<lparr>generation := Some (k + 1)\<rparr>)
      else Inl ConcurrentUpdateDetected)"
  using assms
  by (auto simp add: increment_generation_def percent_format_def conversions_templates
        stored_generations_mem filter_empty_conv Let_def)




text \<open>
  The scenario from an empty store: create, one increment from 0 to 1, and a second
  increment with the stale generation 0.
\<close>

lemma generation_scenario:
  "create (consumer_c1 None None) 100 empty_graph = Inr (stored_graph 0, consumer_c1 None (Some 0))"
  "\<exists>g'. increment_generation (consumer_c1 None (Some 0)) (stored_graph 0) =
          Inr (PyNone, g', consumer_c1 None (Some 1)) \<and>
        stored_generations g' ''c1'' = [Some (PyInt 1)] \<and>
      increment_generation (consumer_c1 None (Some 0)) g' = Inl ConcurrentUpdateDetected"
   apply (simp add: create_def create_in_db_def percent_format_def conversions_templates consumer_c1_def time_or_now_def eval_time_def merge_node_def empty_graph_def stored_graph_def fresh_id_def)
  apply (simp add: increment_known consumer_c1_def stored_generations_bumped)
  apply (simp add: stored_generations_def stored_graph_def)
  done

text \<open>\<open>delete_consumers_if_no_allocations\<close> returns before its statement: nothing is deleted.\<close>

lemma delete_consumers_if_no_allocations_unchanged:
  "delete_consumers_if_no_allocations consumer_uuids g = g"
  by (simp add: delete_consumers_if_no_allocations_def)

text \<open>
  Claim C4. In the example store, consumer \<open>c1\<close> (node 2) takes part in no USES
  relationship, and \<open>delete_consumers_if_no_allocations\<close> called for it leaves the store
  as it was: the consumer is not deleted.
\<close>

theorem delete_consumers_if_no_allocations_keeps_unused:
  "map nid (filter (\<lambda>n. nlabel n = CONSUMER \<and> nprops n ''uuid'' = Some (PyStr ''c1'') \<and>
                        uses_count owned_graph n = 0) (nodes owned_graph)) = [2] \<and>
   delete_consumers_if_no_allocations [''c1''] owned_graph = owned_graph"
  by (simp add: delete_consumers_if_no_allocations_def owned_graph_def uses_count_def)

text \<open>
  \<open>update\<close> with no user (no user object, or one whose UUID is \<open>None\<close> or empty) formats a
  template of two conversions with three items, which is a \<open>TypeError\<close>.
\<close>

lemma update_falsy_user:
  assumes "user c = None \<or> user c = Some None \<or> user c = Some (Some [])"
  shows "update c g = Inl TypeError"
  using assms
  by (auto simp add: update_def update_in_db_def percent_format_def conversions_templates)

text \<open>A successful \<open>update\<close> changes no node, so no generation, and not the object.\<close>

lemma update_keeps_nodes:
  assumes "update c g = Inr (g', c')"
  shows "nodes g' = nodes g \<and> c' = c"
proof -
  from assms have "update c g \<noteq> Inl TypeError" by simp
  with update_falsy_user [of c g]
  have "\<not> (user c = None \<or> user c = Some None \<or> user c = Some (Some []))"
    by blast
  then have n: "user c \<noteq> None" "user c \<noteq> Some None" "user c \<noteq> Some (Some [])"
    by simp_all
  from n(1) obtain a where a: "user c = Some a" by auto
  with n(2) obtain uu where "a = Some uu" by auto
  with a n(3) have uu: "user c = Some (Some uu)" "uu \<noteq> []" by simp_all
  obtain k where k: "generation c = Some k"
    using assms uu
    by (cases "generation c")
       (auto simp add: update_def update_in_db_def percent_format_def conversions_templates
          py_of_int_def py_of_str_def)
  show ?thesis
    using assms uu k
    by (auto simp add: update_def update_in_db_def percent_format_def conversions_templates
          py_of_int_def py_of_str_def Let_def split: if_splits)
qed

text \<open>
  Claim C8. On the example store, where user \<open>u1\<close> owns consumer \<open>c1\<close> at generation 0,
  \<open>update\<close> of that consumer with no user ends in \<open>TypeError\<close>; the ownership
  relationship is not dropped.
\<close>

theorem update_without_user_raises:
  "update (consumer_c1 None (Some 0)) owned_graph = Inl TypeError \<and>
   update (consumer_c1 (Some None) (Some 0)) owned_graph = Inl TypeError"
  by (simp add: update_def update_in_db_def percent_format_def conversions_templates
        consumer_c1_def py_of_int_def py_of_str_def)

text \<open>With user \<open>u2\<close> given, the same call moves the ownership from \<open>u1\<close> to \<open>u2\<close>.\<close>

lemma update_with_user_example:
  "\<exists>g'. update (consumer_c1 (Some (Some ''u2'')) (Some 0)) owned_graph =
          Inr (g', consumer_c1 (Some (Some ''u2'')) (Some 0)) \<and>
        rels g' = [\<lparr>rtype = OWNS, rsrc = 3, rdst = 2\<rparr>] \<and> nodes g' = nodes owned_graph"
  by (simp add: update_def update_in_db_def percent_format_def conversions_templates
        consumer_c1_def py_of_int_def py_of_str_def owns_paths_def owned_graph_def
        match_consumer_def match_user_def has_props_def)

end
